theory Spec2Isabelle
  imports Complex_Main "HOL-Library.AList" "HOL-Library.Char_ord" "HOL-Library.List_Lexorder"
    "HOL-Library.Multiset"
begin

section \<open>Values of the pocket-money ledger programs\<close>

text \<open>
  The three programs (\<^verbatim>\<open>money.py\<close>, \<^verbatim>\<open>simple.py\<close>, \<^verbatim>\<open>pp.py\<close>) keep their ledger in
  the dynamically typed values that \<^verbatim>\<open>json.load\<close> returns: dictionaries, lists, strings,
  numbers, booleans and \<^verbatim>\<open>None\<close>. The embedding keeps that shape. A dictionary is an
  association list in insertion order. Numbers are exact rationals: Python's binary
  floating point (rounding, \<^verbatim>\<open>nan\<close>, \<^verbatim>\<open>inf\<close>, overflow) is idealised as exact
  arithmetic throughout, and every statement below about a sum of amounts is a statement
  about exact sums. Strings are lists of 8-bit characters.
\<close>

datatype json =
    JNull
  | JBool bool
  | JNum rat
  | JStr string
  | JArr "json list"
  | JObj "(string \<times> json) list"

text \<open>The exception classes that the modelled code can raise or catch.\<close>

datatype exn =
    KeyError
  | TypeError
  | ValueError
  | AttributeError
  | JSONDecodeError
  | UnicodeDecodeError
  | OSError

text \<open>Sequencing of computations that may raise: the first exception ends the run.\<close>

definition andthen :: "exn + 'a \<Rightarrow> ('a \<Rightarrow> exn + 'b) \<Rightarrow> exn + 'b" where
  "andthen r f = (case r of Inl e \<Rightarrow> Inl e | Inr v \<Rightarrow> f v)"

subsection \<open>Python primitives used by the programs\<close>

text \<open>\<^verbatim>\<open>d.get(k, default)\<close>: only a dictionary has the method.\<close>

fun dict_get :: "json \<Rightarrow> string \<Rightarrow> json \<Rightarrow> exn + json" where
  "dict_get (JObj kvs) k d = Inr (case map_of kvs k of Some v \<Rightarrow> v | None \<Rightarrow> d)"
| "dict_get _ k d = Inl AttributeError"

text \<open>\<^verbatim>\<open>d[k]\<close> with a string key: a missing key raises, and so does every non-dictionary.\<close>

fun subscript :: "json \<Rightarrow> string \<Rightarrow> exn + json" where
  "subscript (JObj kvs) k = (case map_of kvs k of Some v \<Rightarrow> Inr v | None \<Rightarrow> Inl KeyError)"
| "subscript _ k = Inl TypeError"

text \<open>\<^verbatim>\<open>d[k] = v\<close> with a string key: a new key goes to the end of the dictionary.\<close>

fun setitem :: "json \<Rightarrow> string \<Rightarrow> json \<Rightarrow> exn + json" where
  "setitem (JObj kvs) k v = Inr (JObj (AList.update k v kvs))"
| "setitem _ k v = Inl TypeError"

text \<open>
  \<^verbatim>\<open>float(x)\<close>. A number converts to itself, a boolean to 0 or 1; \<^verbatim>\<open>None\<close>, lists and
  dictionaries raise \<^verbatim>\<open>TypeError\<close>. For a string the result is that of Python's numeric
  literal parser, which is not part of the repository: it is the parameter \<open>fs\<close>, with
  \<open>None\<close> for a string that the parser rejects with \<^verbatim>\<open>ValueError\<close>.
\<close>

fun py_float :: "(string \<Rightarrow> rat option) \<Rightarrow> json \<Rightarrow> exn + rat" where
  "py_float fs (JNum r) = Inr r"
| "py_float fs (JBool b) = Inr (if b then 1 else 0)"
| "py_float fs (JStr s) = (case fs s of Some r \<Rightarrow> Inr r | None \<Rightarrow> Inl ValueError)"
| "py_float fs JNull = Inl TypeError"
| "py_float fs (JArr xs) = Inl TypeError"
| "py_float fs (JObj kvs) = Inl TypeError"

text \<open>
  \<^verbatim>\<open>for t in x\<close>: a list yields its elements, a dictionary its keys, a string its
  characters; the other values are not iterable.
\<close>

fun py_iter :: "json \<Rightarrow> exn + json list" where
  "py_iter (JArr xs) = Inr xs"
| "py_iter (JObj kvs) = Inr (map (\<lambda>kv. JStr (fst kv)) kvs)"
| "py_iter (JStr s) = Inr (map (\<lambda>c. JStr [c]) s)"
| "py_iter _ = Inl TypeError"


section \<open>Balance computation\<close>

text \<open>
  \<^verbatim>\<open>calculate_balance\<close> of \<^verbatim>\<open>money.py\<close>. The loop body reads the amount with default
  0.0, converts it, and then tests the type: \<^verbatim>\<open>IN\<close> adds, \<^verbatim>\<open>OUT\<close> subtracts, anything
  else leaves the balance.
\<close>

fun balance_loop :: "(string \<Rightarrow> rat option) \<Rightarrow> rat \<Rightarrow> json list \<Rightarrow> exn + rat" where
  "balance_loop fs balance [] = Inr balance"
| "balance_loop fs balance (t # ts) =
     andthen (dict_get t ''amount'' (JNum 0)) (\<lambda>a.
     andthen (py_float fs a) (\<lambda>amount.
     andthen (dict_get t ''type'' JNull) (\<lambda>ty.
       if ty = JStr ''IN'' then balance_loop fs (balance + amount) ts
       else if ty = JStr ''OUT'' then balance_loop fs (balance - amount) ts
       else balance_loop fs balance ts)))"

definition calculate_balance :: "(string \<Rightarrow> rat option) \<Rightarrow> json \<Rightarrow> exn + rat" where
  "calculate_balance fs data =
     andthen (dict_get data ''starting_balance'' (JNum 0)) (\<lambda>sb.
     andthen (py_float fs sb) (\<lambda>balance.
     andthen (dict_get data ''transactions'' (JArr [])) (\<lambda>txs.
     andthen (py_iter txs) (\<lambda>ts.
       balance_loop fs balance ts))))"



section \<open>Persistence\<close>

text \<open>
  The data file is either absent (\<open>None\<close>) or holds some content of type \<open>'c\<close>. The
  JSON codec is Python's library, not code of the repository, so it is a pair of
  parameters: \<open>dump\<close> is the text that \<^verbatim>\<open>json.dump(data, f, indent=4)\<close> writes, and
  \<open>read c\<close> is what \<^verbatim>\<open>open\<close> followed by \<^verbatim>\<open>json.load\<close> does on a file of content \<open>c\<close>:
  the decoded value, or the exception raised (\<^verbatim>\<open>OSError\<close> for a file that cannot be
  opened or read, \<^verbatim>\<open>JSONDecodeError\<close> for text that is not JSON, \<^verbatim>\<open>UnicodeDecodeError\<close>
  for bytes that are not UTF-8). Writing the file is taken to succeed.
\<close>

definition fresh :: json where
  "fresh = JObj [(''starting_balance'', JNum 0), (''transactions'', JArr [])]"

definition fresh_simple :: json where
  "fresh_simple = JObj [(''transactions'', JArr [])]"

fun contains_sub :: "string \<Rightarrow> string \<Rightarrow> bool" where
  "contains_sub k [] = (k = [])"
| "contains_sub k (c # s) = (take (length k) (c # s) = k \<or> contains_sub k s)"

text \<open>
  \<^verbatim>\<open>k in x\<close> for a string \<open>k\<close>: key membership in a dictionary, element membership in a
  list, substring test in a string; \<^verbatim>\<open>TypeError\<close> on the values that are not containers.
\<close>

fun py_in :: "string \<Rightarrow> json \<Rightarrow> exn + bool" where
  "py_in k (JObj kvs) = Inr (k \<in> set (map fst kvs))"
| "py_in k (JArr xs) = Inr (JStr k \<in> set xs)"
| "py_in k (JStr s) = Inr (contains_sub k s)"
| "py_in k _ = Inl TypeError"

definition ensure_key :: "string \<Rightarrow> json \<Rightarrow> json \<Rightarrow> exn + json" where
  "ensure_key k v data =
     andthen (py_in k data) (\<lambda>present.
       if \<not> present then setitem data k v else Inr data)"

text \<open>
  \<^verbatim>\<open>load_data\<close> of \<^verbatim>\<open>money.py\<close>. The handler catches \<^verbatim>\<open>json.JSONDecodeError\<close> and
  \<^verbatim>\<open>OSError\<close> only; every other exception raised inside the \<^verbatim>\<open>try\<close> block leaves the
  function.
\<close>

definition caught :: "exn \<Rightarrow> bool" where
  "caught e = (e = JSONDecodeError \<or> e = OSError)"

definition load_data :: "('c \<Rightarrow> exn + json) \<Rightarrow> 'c option \<Rightarrow> exn + json" where
  "load_data read file =
     (case file of
        None \<Rightarrow> Inr fresh
      | Some c \<Rightarrow>
          (case andthen (read c) (\<lambda>data.
                andthen (ensure_key ''starting_balance'' (JNum 0) data) (\<lambda>data.
                  ensure_key ''transactions'' (JArr []) data)) of
             Inr data \<Rightarrow> Inr data
           | Inl e \<Rightarrow> if caught e then Inr fresh else Inl e))"

text \<open>\<^verbatim>\<open>load_data\<close> of \<^verbatim>\<open>simple.py\<close>: whatever \<^verbatim>\<open>json.load\<close> returns is returned as it is.\<close>

definition load_data_simple :: "('c \<Rightarrow> exn + json) \<Rightarrow> 'c option \<Rightarrow> exn + json" where
  "load_data_simple read file =
     (case file of
        None \<Rightarrow> Inr fresh_simple
      | Some c \<Rightarrow>
          (case read c of
             Inr data \<Rightarrow> Inr data
           | Inl e \<Rightarrow> if caught e then Inr fresh_simple else Inl e))"

text \<open>\<^verbatim>\<open>save_data\<close>, the same in both command-line programs: the file is overwritten.\<close>

definition save_data :: "(json \<Rightarrow> 'c) \<Rightarrow> json \<Rightarrow> 'c option \<Rightarrow> 'c option" where
  "save_data dump data file = Some (dump data)"

section \<open>Menu actions that change the ledger\<close>

text \<open>
  The state of a running program is the in-memory ledger and the data file. The values
  typed by the user are arguments: \<open>amount\<close> is what \<^verbatim>\<open>input_float\<close> returned, \<open>date\<close> what
  \<^verbatim>\<open>input_date\<close> returned, the texts are the stripped answers. An action returns the line
  it reports and the new state, or the exception that ends the program.
\<close>

datatype report =
    Amount_must_be_positive
  | Income_added rat
  | Expense_added rat
  | Starting_balance_updated rat

type_synonym 'c state = "json \<times> 'c option"

text \<open>\<^verbatim>\<open>x.append(t)\<close>: only a list has the method.\<close>

fun list_append :: "json \<Rightarrow> json \<Rightarrow> exn + json" where
  "list_append (JArr xs) t = Inr (JArr (xs @ [t]))"
| "list_append _ t = Inl AttributeError"

text \<open>\<^verbatim>\<open>data["transactions"].append(transaction); save_data(data)\<close>.\<close>

definition append_and_save ::
  "(json \<Rightarrow> 'c) \<Rightarrow> json \<Rightarrow> report \<Rightarrow> 'c state \<Rightarrow> exn + (report \<times> 'c state)" where
  "append_and_save dump transaction r st =
     (case st of (data, file) \<Rightarrow>
       andthen (subscript data ''transactions'') (\<lambda>txs.
       andthen (list_append txs transaction) (\<lambda>txs'.
       andthen (setitem data ''transactions'' txs') (\<lambda>data'.
         Inr (r, data', save_data dump data' file)))))"

text \<open>The dictionaries that \<^verbatim>\<open>add_income\<close> and \<^verbatim>\<open>add_expense\<close> build.\<close>

definition income_transaction :: "rat \<Rightarrow> string \<Rightarrow> string \<Rightarrow> string \<Rightarrow> json" where
  "income_transaction amount source date note =
     JObj [(''date'', JStr date), (''type'', JStr ''IN''), (''amount'', JNum amount),
           (''category'', JStr (if source \<noteq> [] then source else ''Pocket Money'')),
           (''note'', JStr note)]"

definition expense_transaction :: "rat \<Rightarrow> string \<Rightarrow> string \<Rightarrow> string \<Rightarrow> json" where
  "expense_transaction amount category date note =
     JObj [(''date'', JStr date), (''type'', JStr ''OUT''), (''amount'', JNum amount),
           (''category'', JStr (if category = [] then ''Other'' else category)),
           (''note'', JStr note)]"

definition add_income ::
  "(json \<Rightarrow> 'c) \<Rightarrow> rat \<Rightarrow> string \<Rightarrow> string \<Rightarrow> string \<Rightarrow> 'c state \<Rightarrow> exn + (report \<times> 'c state)" where
  "add_income dump amount source date note st =
     (if amount \<le> 0 then Inr (Amount_must_be_positive, st)
      else append_and_save dump (income_transaction amount source date note)
             (Income_added amount) st)"

definition add_expense ::
  "(json \<Rightarrow> 'c) \<Rightarrow> rat \<Rightarrow> string \<Rightarrow> string \<Rightarrow> string \<Rightarrow> 'c state \<Rightarrow> exn + (report \<times> 'c state)" where
  "add_expense dump amount category date note st =
     (if amount \<le> 0 then Inr (Amount_must_be_positive, st)
      else append_and_save dump (expense_transaction amount category date note)
             (Expense_added amount) st)"

definition set_starting_balance ::
  "(string \<Rightarrow> rat option) \<Rightarrow> (json \<Rightarrow> 'c) \<Rightarrow> rat \<Rightarrow> 'c state \<Rightarrow> exn + (report \<times> 'c state)" where
  "set_starting_balance fs dump new_balance st =
     (case st of (data, file) \<Rightarrow>
       andthen (dict_get data ''starting_balance'' (JNum 0)) (\<lambda>sb.
       andthen (py_float fs sb) (\<lambda>current.
       andthen (setitem data ''starting_balance'' (JNum new_balance)) (\<lambda>data'.
         Inr (Starting_balance_updated new_balance, data', save_data dump data' file)))))"

text \<open>
  The two actions of \<^verbatim>\<open>simple.py\<close>: the date is the clock reading \<open>now\<close>, formatted
  \<^verbatim>\<open>%Y-%m-%d %H:%M\<close>, and a transaction has no category.
\<close>

definition income_simple :: "string \<Rightarrow> rat \<Rightarrow> string \<Rightarrow> json" where
  "income_simple now amount note =
     JObj [(''date'', JStr now), (''type'', JStr ''IN''), (''amount'', JNum amount),
           (''note'', JStr (if note = [] then ''Income'' else note))]"

definition expense_simple :: "string \<Rightarrow> rat \<Rightarrow> string \<Rightarrow> json" where
  "expense_simple now amount note =
     JObj [(''date'', JStr now), (''type'', JStr ''OUT''), (''amount'', JNum amount),
           (''note'', JStr (if note = [] then ''Expense'' else note))]"

definition add_income_simple ::
  "(json \<Rightarrow> 'c) \<Rightarrow> string \<Rightarrow> rat \<Rightarrow> string \<Rightarrow> 'c state \<Rightarrow> exn + (report \<times> 'c state)" where
  "add_income_simple dump now amount note st =
     (if amount \<le> 0 then Inr (Amount_must_be_positive, st)
      else append_and_save dump (income_simple now amount note) (Income_added amount) st)"

definition add_expense_simple ::
  "(json \<Rightarrow> 'c) \<Rightarrow> string \<Rightarrow> rat \<Rightarrow> string \<Rightarrow> 'c state \<Rightarrow> exn + (report \<times> 'c state)" where
  "add_expense_simple dump now amount note st =
     (if amount \<le> 0 then Inr (Amount_must_be_positive, st)
      else append_and_save dump (expense_simple now amount note) (Expense_added amount) st)"

section \<open>Validating a year and a month\<close>

text \<open>
  \<^verbatim>\<open>monthly_summary\<close> validates its input with
  \<^verbatim>\<open>datetime.strptime(f"{year}-{month}-01", "%Y-%m-%d")\<close>. The library turns the format
  into the regular expression
  \<^verbatim>\<open>(\d\d\d\d)-(1[0-2]|0[1-9]|[1-9])-(3[0-1]|[1-2]\d|0[1-9]|[1-9]| [1-9])\<close>, matches it at
  the start of the text, rejects text left over after the match, and then builds a date,
  which rejects year 0 and a day past the end of the month. The model follows these steps:
  each group lists its alternatives in the order the expression tries them, and the match
  is the first combination that succeeds.
\<close>

definition is_digit :: "char \<Rightarrow> bool" where
  "is_digit c = (c \<in> set ''0123456789'')"

definition is_nonzero_digit :: "char \<Rightarrow> bool" where
  "is_nonzero_digit c = (c \<in> set ''123456789'')"

definition digit_val :: "char \<Rightarrow> nat" where
  "digit_val c = of_char c - 48"

definition digits_val :: "string \<Rightarrow> nat" where
  "digits_val s = foldl (\<lambda>n c. 10 * n + digit_val c) 0 s"

definition year_group :: "string \<Rightarrow> (nat \<times> string) list" where
  "year_group s =
     (if 4 \<le> length s \<and> list_all is_digit (take 4 s)
      then [(digits_val (take 4 s), drop 4 s)] else [])"

definition hyphen :: "string \<Rightarrow> string list" where
  "hyphen s = (case s of c # r \<Rightarrow> if c = CHR ''-'' then [r] else [] | [] \<Rightarrow> [])"

definition two_chars ::
  "(char \<Rightarrow> bool) \<Rightarrow> (char \<Rightarrow> bool) \<Rightarrow> string \<Rightarrow> (nat \<times> string) list" where
  "two_chars p q s =
     (case s of
        a # b # r \<Rightarrow> if p a \<and> q b then [(10 * digit_val a + digit_val b, r)] else []
      | _ \<Rightarrow> [])"

definition one_char :: "(char \<Rightarrow> bool) \<Rightarrow> string \<Rightarrow> (nat \<times> string) list" where
  "one_char p s = (case s of a # r \<Rightarrow> if p a then [(digit_val a, r)] else [] | [] \<Rightarrow> [])"

definition month_group :: "string \<Rightarrow> (nat \<times> string) list" where
  "month_group s =
     two_chars (\<lambda>a. a = CHR ''1'') (\<lambda>b. b \<in> set ''012'') s
     @ two_chars (\<lambda>a. a = CHR ''0'') is_nonzero_digit s
     @ one_char is_nonzero_digit s"

definition day_group :: "string \<Rightarrow> (nat \<times> string) list" where
  "day_group s =
     two_chars (\<lambda>a. a = CHR ''3'') (\<lambda>b. b \<in> set ''01'') s
     @ two_chars (\<lambda>a. a \<in> set ''12'') is_digit s
     @ two_chars (\<lambda>a. a = CHR ''0'') is_nonzero_digit s
     @ one_char is_nonzero_digit s
     @ (case s of a # r \<Rightarrow> if a = CHR '' '' then one_char is_nonzero_digit r else []
        | [] \<Rightarrow> [])"

definition md_matches :: "string \<Rightarrow> (nat \<times> nat \<times> string) list" where
  "md_matches r1 =
     concat (map (\<lambda>(m, r2).
       concat (map (\<lambda>r3.
         map (\<lambda>(d, r4). (m, d, r4)) (day_group r3))
       (hyphen r2)))
     (month_group r1))"

definition ymd_matches :: "string \<Rightarrow> (nat \<times> nat \<times> nat \<times> string) list" where
  "ymd_matches s =
     concat (map (\<lambda>(y, r0).
       concat (map (\<lambda>r1.
         map (\<lambda>(m, d, r4). (y, m, d, r4)) (md_matches r1))
       (hyphen r0)))
     (year_group s))"

definition is_leap :: "nat \<Rightarrow> bool" where
  "is_leap y = (y mod 4 = 0 \<and> (y mod 100 \<noteq> 0 \<or> y mod 400 = 0))"

definition days_in_month :: "nat \<Rightarrow> nat \<Rightarrow> nat" where
  "days_in_month y m =
     (if m = 2 then (if is_leap y then 29 else 28)
      else if m \<in> {4, 6, 9, 11} then 30 else 31)"

definition strptime_Ymd :: "string \<Rightarrow> exn + (nat \<times> nat \<times> nat)" where
  "strptime_Ymd s =
     (case ymd_matches s of
        [] \<Rightarrow> Inl ValueError
      | (y, m, d, rest) # _ \<Rightarrow>
          if rest \<noteq> [] then Inl ValueError
          else if y < 1 \<or> days_in_month y m < d then Inl ValueError
          else Inr (y, m, d))"

section \<open>Monthly summary and transaction history\<close>

text \<open>\<^verbatim>\<open>s.startswith(p)\<close>: only a string has the method.\<close>

fun startswith :: "json \<Rightarrow> string \<Rightarrow> exn + bool" where
  "startswith (JStr s) p = Inr (take (length p) s = p)"
| "startswith _ p = Inl AttributeError"

text \<open>Right-justification to a width with a fill character (\<^verbatim>\<open>{month:>02}\<close>).\<close>

definition rjust :: "nat \<Rightarrow> char \<Rightarrow> string \<Rightarrow> string" where
  "rjust w c s = replicate (w - length s) c @ s"

definition ym_prefix :: "string \<Rightarrow> string \<Rightarrow> string" where
  "ym_prefix year month =
     (if length month = 2 then year @ ''-'' @ rjust 2 (CHR ''0'') month
      else year @ ''-0'' @ month)"

text \<open>
  The filtering loop of \<^verbatim>\<open>monthly_summary\<close>: a transaction whose date does not start
  with the prefix is skipped before its amount is even read; one that does is counted
  whatever its type.
\<close>

fun month_loop ::
  "(string \<Rightarrow> rat option) \<Rightarrow> string \<Rightarrow> rat \<Rightarrow> rat \<Rightarrow> json list \<Rightarrow> json list
     \<Rightarrow> exn + (rat \<times> rat \<times> json list)" where
  "month_loop fs p income_total expense_total counted [] =
     Inr (income_total, expense_total, counted)"
| "month_loop fs p income_total expense_total counted (t # ts) =
     andthen (dict_get t ''date'' (JStr [])) (\<lambda>date.
     andthen (startswith date p) (\<lambda>hit.
       if \<not> hit then month_loop fs p income_total expense_total counted ts
       else
         andthen (dict_get t ''amount'' (JNum 0)) (\<lambda>a.
         andthen (py_float fs a) (\<lambda>amount.
         andthen (dict_get t ''type'' JNull) (\<lambda>ty.
           if ty = JStr ''IN'' then
             month_loop fs p (income_total + amount) expense_total (counted @ [t]) ts
           else if ty = JStr ''OUT'' then
             month_loop fs p income_total (expense_total + amount) (counted @ [t]) ts
           else month_loop fs p income_total expense_total (counted @ [t]) ts)))))"

text \<open>
  \<^verbatim>\<open>sorted(xs, key=lambda x: x.get("date", ""))\<close>. The keys are computed first. Python's
  sort is stable and compares keys with \<^verbatim>\<open><\<close>: strings compare lexicographically by
  character code, numbers and booleans by value, and a comparison between other
  combinations raises \<^verbatim>\<open>TypeError\<close>; a list of at most one element is never compared.
  (Keys that are themselves lists are treated as not comparable.)
\<close>

fun map_exn :: "('a \<Rightarrow> exn + 'b) \<Rightarrow> 'a list \<Rightarrow> exn + 'b list" where
  "map_exn f [] = Inr []"
| "map_exn f (x # xs) =
     andthen (f x) (\<lambda>y. andthen (map_exn f xs) (\<lambda>ys. Inr (y # ys)))"

fun is_str :: "json \<Rightarrow> bool" where
  "is_str (JStr s) = True"
| "is_str _ = False"

fun is_number :: "json \<Rightarrow> bool" where
  "is_number (JNum r) = True"
| "is_number (JBool b) = True"
| "is_number _ = False"

fun str_of :: "json \<Rightarrow> string" where
  "str_of (JStr s) = s"
| "str_of _ = []"

fun num_of :: "json \<Rightarrow> rat" where
  "num_of (JNum r) = r"
| "num_of (JBool b) = (if b then 1 else 0)"
| "num_of _ = 0"

definition date_of :: "json \<Rightarrow> json" where
  "date_of t = (case dict_get t ''date'' (JStr []) of Inr d \<Rightarrow> d | Inl e \<Rightarrow> JNull)"

definition sorted_by_date :: "json list \<Rightarrow> exn + json list" where
  "sorted_by_date xs =
     andthen (map_exn (\<lambda>x. dict_get x ''date'' (JStr [])) xs) (\<lambda>keys.
       if list_all is_str keys then Inr (sort_key (\<lambda>t. str_of (date_of t)) xs)
       else if list_all is_number keys then Inr (sort_key (\<lambda>t. num_of (date_of t)) xs)
       else if length keys \<le> 1 then Inr xs
       else Inl TypeError)"

text \<open>
  A printed table row, as the values of its columns; the layout of a row as text is not
  modelled, except that a format specification such as \<^verbatim>\<open>{date:<12}\<close> raises
  \<^verbatim>\<open>TypeError\<close> on \<^verbatim>\<open>None\<close>, on a list and on a dictionary.
\<close>

datatype row = Row (row_date: json) (row_type: json) (row_sign: string) (row_amount: rat)
  (row_category: json) (row_note: json)

fun format_spec :: "json \<Rightarrow> exn + unit" where
  "format_spec JNull = Inl TypeError"
| "format_spec (JArr xs) = Inl TypeError"
| "format_spec (JObj kvs) = Inl TypeError"
| "format_spec _ = Inr ()"


definition summary_row :: "(string \<Rightarrow> rat option) \<Rightarrow> json \<Rightarrow> exn + row" where
  "summary_row fs t =
     andthen (dict_get t ''date'' (JStr [])) (\<lambda>date.
     andthen (dict_get t ''type'' JNull) (\<lambda>ttype.
     andthen (dict_get t ''amount'' (JNum 0)) (\<lambda>a.
     andthen (py_float fs a) (\<lambda>amount.
     andthen (dict_get t ''category'' (JStr [])) (\<lambda>category.
     andthen (dict_get t ''note'' (JStr [])) (\<lambda>note.
     andthen (format_spec date) (\<lambda>_.
     andthen (format_spec ttype) (\<lambda>_.
     andthen (format_spec category) (\<lambda>_.
       Inr (Row date ttype (if ttype = JStr ''IN'' then ''+'' else ''-'') amount
              category note))))))))))"


text \<open>
  \<^verbatim>\<open>monthly_summary\<close>. \<open>year\<close> and \<open>month\<close> are the stripped answers, \<open>today_Y\<close> and
  \<open>today_m\<close> are \<^verbatim>\<open>today.strftime("%Y")\<close> and \<^verbatim>\<open>today.strftime("%m")\<close>. The result is the
  message \<^verbatim>\<open>Invalid year/month.\<close> or the four printed figures followed by the detail
  table, whose printing may still raise after the figures are out. The ledger is only
  read, so the state is returned as it was received.
\<close>

record summary =
  income :: rat
  expense :: rat
  net :: rat
  count :: nat
  details :: "exn + row list"

datatype summary_result = Invalid_year_month | Summary summary

definition monthly_summary ::
  "(string \<Rightarrow> rat option) \<Rightarrow> string \<Rightarrow> string \<Rightarrow> string \<Rightarrow> string \<Rightarrow> 'c state
     \<Rightarrow> exn + (summary_result \<times> 'c state)" where
  "monthly_summary fs today_Y today_m year_in month_in st =
     (let year = (if year_in = [] then today_Y else year_in);
          month = (if month_in = [] then today_m else month_in)
      in case strptime_Ymd (year @ ''-'' @ month @ ''-01'') of
           Inl e \<Rightarrow> if e = ValueError then Inr (Invalid_year_month, st) else Inl e
         | Inr _ \<Rightarrow>
             andthen (dict_get (fst st) ''transactions'' (JArr [])) (\<lambda>txs.
             andthen (py_iter txs) (\<lambda>ts.
             andthen (month_loop fs (ym_prefix year month) 0 0 [] ts)
               (\<lambda>(income_total, expense_total, counted_transactions).
                 Inr (Summary \<lparr>income = income_total, expense = expense_total,
                        net = income_total - expense_total,
                        count = length counted_transactions,
                        details =
                          (if counted_transactions = [] then Inr []
                           else andthen (sorted_by_date counted_transactions)
                                  (map_exn (summary_row fs)))\<rparr>, st)))))"

section \<open>The form-based program\<close>

text \<open>
  \<^verbatim>\<open>pp.py\<close> keeps its transactions in a table with named columns. A table is its list of
  column names and its rows, a row giving the cell of each column. The session state
  holds the table and the starting balance.
\<close>

record dataframe =
  columns :: "string list"
  cells :: "(string \<times> json) list list"

record session =
  transactions :: dataframe
  starting_balance :: rat

datatype sidebar =
    Nothing_uploaded
  | Transactions_loaded
  | Missing_required_columns
  | Error_reading_file exn

definition required_cols :: "string set" where
  "required_cols = {''Date'', ''Type'', ''Amount'', ''Category'', ''Note''}"

text \<open>
  The upload block. \<open>uploaded\<close> is \<open>None\<close> when no file was chosen; otherwise it is
  what \<^verbatim>\<open>pd.read_csv\<close> did with the file: the table read, or the exception raised, which
  the handler \<^verbatim>\<open>except Exception\<close> turns into a message.
\<close>

definition upload :: "(exn + dataframe) option \<Rightarrow> session \<Rightarrow> session \<times> sidebar" where
  "upload uploaded st =
     (case uploaded of
        None \<Rightarrow> (st, Nothing_uploaded)
      | Some (Inl e) \<Rightarrow> (st, Error_reading_file e)
      | Some (Inr df_uploaded) \<Rightarrow>
          if required_cols \<subseteq> set (columns df_uploaded)
          then (st\<lparr>transactions := df_uploaded\<rparr>, Transactions_loaded)
          else (st, Missing_required_columns))"







section \<open>Sequences of entries and the sums of a ledger\<close>

text \<open>
  An entry is one answered "add income" or "add expense" dialogue of \<^verbatim>\<open>money.py\<close>:
  the amount, the source or category, the date and the note. A sequence of entries is
  run by calling the two actions in order.
\<close>

datatype entry = Income rat string string string | Expense rat string string string




fun append_entry :: "(json \<Rightarrow> 'c) \<Rightarrow> entry \<Rightarrow> 'c state \<Rightarrow> exn + (report \<times> 'c state)" where
  "append_entry dump (Income a s d n) st = add_income dump a s d n st"
| "append_entry dump (Expense a c d n) st = add_expense dump a c d n st"

fun run_appends :: "(json \<Rightarrow> 'c) \<Rightarrow> entry list \<Rightarrow> 'c state \<Rightarrow> exn + 'c state" where
  "run_appends dump [] st = Inr st"
| "run_appends dump (e # es) st =
     andthen (append_entry dump e st) (\<lambda>(r, st'). run_appends dump es st')"







text \<open>A ledger of \<^verbatim>\<open>money.py\<close> with a given starting balance and transaction list.\<close>

definition ledger :: "rat \<Rightarrow> json list \<Rightarrow> json" where
  "ledger s ts = JObj [(''starting_balance'', JNum s), (''transactions'', JArr ts)]"


text \<open>
  The sums the specification speaks of. The amount of a transaction is the value of
  \<^verbatim>\<open>float(t.get("amount", 0.0))\<close> where that is defined; a transaction has type \<open>ty\<close> when
  its \<^verbatim>\<open>type\<close> field is that string; \<open>type_total fs ty ts\<close> is the sum of the amounts of
  the transactions of type \<open>ty\<close>.
\<close>

definition amount_val :: "(string \<Rightarrow> rat option) \<Rightarrow> json \<Rightarrow> rat" where
  "amount_val fs t =
     (case andthen (dict_get t ''amount'' (JNum 0)) (py_float fs) of
        Inr r \<Rightarrow> r | Inl e \<Rightarrow> 0)"


definition has_type :: "string \<Rightarrow> json \<Rightarrow> bool" where
  "has_type ty t = (dict_get t ''type'' JNull = Inr (JStr ty))"

definition type_total :: "(string \<Rightarrow> rat option) \<Rightarrow> string \<Rightarrow> json list \<Rightarrow> rat" where
  "type_total fs ty ts = sum_list (map (amount_val fs) (filter (has_type ty) ts))"


section \<open>The specification's notions of a calendar month and of its transactions\<close>












section \<open>The balance is the starting balance plus income minus expenses\<close>




lemma type_total_append:
  "type_total fs ty (ts @ us) = type_total fs ty ts + type_total fs ty us"
  by (simp add: type_total_def)




















section \<open>Saving, loading and rejected entries\<close>

lemma load_data_decoded_ledger:
  "read c = Inr (ledger s ts) \<Longrightarrow> load_data read (Some c) = Inr (ledger s ts)"
  by (simp add: load_data_def andthen_def ledger_def ensure_key_def)

lemma load_data_absent: "load_data read None = Inr fresh"
  by (simp add: load_data_def)

lemma load_data_caught:
  "read c = Inl e \<Longrightarrow> caught e \<Longrightarrow> load_data read (Some c) = Inr fresh"
  by (simp add: load_data_def andthen_def)

lemma load_data_raises_on_bad_bytes:
  "load_data (\<lambda>c. Inl UnicodeDecodeError) (Some c) = Inl UnicodeDecodeError"
  by (simp add: load_data_def andthen_def caught_def)

text \<open>
  Claim C2. For every ledger of \<^verbatim>\<open>money.py\<close> (any starting balance \<open>s\<close>, any list of
  transactions \<open>ts\<close>), \<^verbatim>\<open>save_data\<close> followed by \<^verbatim>\<open>load_data\<close> returns the same ledger:
  the sanity checks of \<^verbatim>\<open>load_data\<close> find both keys and change nothing. The hypothesis
  is the contract of the JSON library, that \<^verbatim>\<open>json.load\<close> decodes what \<^verbatim>\<open>json.dump\<close>
  wrote for this ledger to the same value.
\<close>

theorem save_then_load:
  assumes "read (dump (ledger s ts)) = Inr (ledger s ts)"
  shows "load_data read (save_data dump (ledger s ts) file) = Inr (ledger s ts)"
  using assms by (simp add: save_data_def load_data_decoded_ledger)

theorem save_then_load_witness:
  "load_data Inr (save_data (\<lambda>d. d)
      (ledger 100 [income_transaction 50 ''gift'' ''2024-01-05'' [],
                   expense_transaction 20 ''snacks'' ''2024-01-10'' []]) None)
   = Inr (ledger 100 [income_transaction 50 ''gift'' ''2024-01-05'' [],
                   expense_transaction 20 ''snacks'' ''2024-01-10'' []])"
  using save_then_load [of Inr "\<lambda>d. d" 100 "[income_transaction 50 ''gift'' ''2024-01-05'' [],
                   expense_transaction 20 ''snacks'' ''2024-01-10'' []]" None]
  by simp

text \<open>
  Claim C3. An entry whose amount is not positive is answered with the line
  \<^verbatim>\<open>Amount must be positive.\<close> and nothing else happens: the in-memory ledger (its
  transactions and its starting balance) and the data file are what they were. This holds
  for the two actions of \<^verbatim>\<open>money.py\<close> and the two of \<^verbatim>\<open>simple.py\<close>.
\<close>

theorem nonpositive_amount_rejected:
  assumes "amount \<le> 0"
  shows "add_income dump amount source date note (data, file)
           = Inr (Amount_must_be_positive, data, file)
     \<and> add_expense dump amount category date note (data, file)
           = Inr (Amount_must_be_positive, data, file)
     \<and> add_income_simple dump now amount note (data, file)
           = Inr (Amount_must_be_positive, data, file)
     \<and> add_expense_simple dump now amount note (data, file)
           = Inr (Amount_must_be_positive, data, file)"
  using assms
  by (simp add: add_income_def add_expense_def add_income_simple_def add_expense_simple_def)

theorem nonpositive_amount_rejected_witness:
  "add_income (\<lambda>d. d) (- 5) ''gift'' ''2024-01-05'' [] (ledger 100 [], None)
           = Inr (Amount_must_be_positive, ledger 100 [], None)
     \<and> add_expense (\<lambda>d. d) (- 5) ''snacks'' ''2024-01-05'' [] (ledger 100 [], None)
           = Inr (Amount_must_be_positive, ledger 100 [], None)
     \<and> add_income_simple (\<lambda>d. d) ''2024-01-05 10:00'' (- 5) [] (ledger 100 [], None)
           = Inr (Amount_must_be_positive, ledger 100 [], None)
     \<and> add_expense_simple (\<lambda>d. d) ''2024-01-05 10:00'' (- 5) [] (ledger 100 [], None)
           = Inr (Amount_must_be_positive, ledger 100 [], None)"
  using nonpositive_amount_rejected
    [of "- 5" "\<lambda>d. d" "''gift''" "''2024-01-05''" "[]" "ledger 100 []" None "''snacks''"
        "''2024-01-05 10:00''"]
  by simp

text \<open>
  Claim C4. \<^verbatim>\<open>load_data\<close> of \<^verbatim>\<open>money.py\<close> does raise on some malformed files. The file
  whose text is \<^verbatim>\<open>[]\<close> is valid JSON, so \<^verbatim>\<open>json.load\<close> returns the empty list; the test
  \<^verbatim>\<open>"starting_balance" not in data\<close> is true of it, and the assignment
  \<^verbatim>\<open>data["starting_balance"] = 0.0\<close> raises \<^verbatim>\<open>TypeError\<close>, which the handler for
  \<^verbatim>\<open>JSONDecodeError\<close> and \<^verbatim>\<open>OSError\<close> lets through.
\<close>

theorem load_data_raises_on_list:
  "load_data (\<lambda>c. if c = ''[]'' then Inr (JArr []) else Inl JSONDecodeError) (Some ''[]'')
     = Inl TypeError"
  by (simp add: load_data_def andthen_def ensure_key_def caught_def)

section \<open>Import of a table\<close>

text \<open>
  Claim C8. A table that was read from the uploaded file and whose columns include
  \<^verbatim>\<open>Date\<close>, \<^verbatim>\<open>Type\<close>, \<^verbatim>\<open>Amount\<close>, \<^verbatim>\<open>Category\<close> and \<^verbatim>\<open>Note\<close> becomes the transaction
  table; a table that lacks one of them is answered with an error and the session state
  stays as it was, and so it does when reading the file raised.
\<close>

theorem upload_checks_columns:
  "(required_cols \<subseteq> set (columns df) \<longrightarrow>
      upload (Some (Inr df)) st = (st\<lparr>transactions := df\<rparr>, Transactions_loaded))
   \<and> (\<not> required_cols \<subseteq> set (columns df) \<longrightarrow>
      upload (Some (Inr df)) st = (st, Missing_required_columns))
   \<and> upload (Some (Inl e)) st = (st, Error_reading_file e)"
  by (simp add: upload_def)

theorem upload_checks_columns_witness:
  "upload (Some (Inr \<lparr>columns = [''Note'', ''Date'', ''Type'', ''Amount'', ''Category'', ''Extra''],
                       cells = []\<rparr>))
      \<lparr>transactions = \<lparr>columns = [], cells = []\<rparr>, starting_balance = 5\<rparr>
     = (\<lparr>transactions = \<lparr>columns = [''Note'', ''Date'', ''Type'', ''Amount'', ''Category'', ''Extra''],
                       cells = []\<rparr>, starting_balance = 5\<rparr>, Transactions_loaded)
   \<and> upload (Some (Inr \<lparr>columns = [''Date'', ''Type'', ''Amount''], cells = []\<rparr>))
      \<lparr>transactions = \<lparr>columns = [], cells = []\<rparr>, starting_balance = 5\<rparr>
     = (\<lparr>transactions = \<lparr>columns = [], cells = []\<rparr>, starting_balance = 5\<rparr>,
        Missing_required_columns)"
  using upload_checks_columns
      [of "\<lparr>columns = [''Note'', ''Date'', ''Type'', ''Amount'', ''Category'', ''Extra''],
            cells = []\<rparr>"
          "\<lparr>transactions = \<lparr>columns = [], cells = []\<rparr>, starting_balance = 5\<rparr>"]
    upload_checks_columns
      [of "\<lparr>columns = [''Date'', ''Type'', ''Amount''], cells = []\<rparr>"
          "\<lparr>transactions = \<lparr>columns = [], cells = []\<rparr>, starting_balance = 5\<rparr>"]
  by (simp add: required_cols_def)

section \<open>Totality of the balance computation\<close>







section \<open>Which year and month the validation accepts\<close>


























section \<open>The monthly summary\<close>










section \<open>The worked example of the specification\<close>

text \<open>
  Claim C9. Open the program with no data file, set the starting balance to 100, add an
  income of 50 "gift" dated 2024-01-05, an expense of 20 "snacks" dated 2024-01-10 and an
  income of 10 "gift" dated 2024-02-01. Then \<^verbatim>\<open>calculate_balance\<close> returns 140, and
  \<^verbatim>\<open>monthly_summary\<close> for year 2024 and month 01 reports income 50, expense 20, net 30
  and 2 transactions, listing the two January transactions in date order.
\<close>

theorem specification_example:
  "andthen (load_data read None) (\<lambda>data.
   andthen (set_starting_balance fs dump 100 (data, None)) (\<lambda>(r, st).
   andthen (run_appends dump
              [Income 50 ''gift'' ''2024-01-05'' [],
               Expense 20 ''snacks'' ''2024-01-10'' [],
               Income 10 ''gift'' ''2024-02-01'' []] st) (\<lambda>st.
   andthen (monthly_summary fs today_Y today_m ''2024'' ''01'' st) (\<lambda>(r, st').
     Inr (calculate_balance fs (fst st), r)))))
   = Inr (Inr 140,
          Summary \<lparr>income = 50, expense = 20, net = 30, count = 2,
            details = Inr [Row (JStr ''2024-01-05'') (JStr ''IN'') ''+'' 50 (JStr ''gift'') (JStr []),
                           Row (JStr ''2024-01-10'') (JStr ''OUT'') ''-'' 20 (JStr ''snacks'')
                             (JStr [])]\<rparr>)"
  by (simp add: load_data_def fresh_def set_starting_balance_def andthen_def save_data_def
      add_income_def add_expense_def append_and_save_def income_transaction_def
      expense_transaction_def calculate_balance_def monthly_summary_def Let_def
      strptime_Ymd_def ymd_matches_def md_matches_def year_group_def hyphen_def month_group_def
      day_group_def two_chars_def one_char_def is_digit_def is_nonzero_digit_def digits_val_def
      digit_val_def days_in_month_def is_leap_def ym_prefix_def rjust_def sorted_by_date_def
      date_of_def summary_row_def)

section \<open>The order of the transaction listings\<close>





















end
